theory Spec2Isabelle
  imports Complex_Main "HOL-Library.Char_ord" "HOL-Library.List_Lexorder" "HOL-Library.AList"
begin

section \<open>Moodbot: a shallow embedding of moodbot.py\<close>

text \<open>
  The bot reads the messages of a Telegram group, classifies each one with a sentiment
  model, stores the outcome in an SQLite table, keeps a per-day list of sentiments in
  memory, asks the admins to confirm strongly negative messages and posts a daily
  summary. Each function of \<^verbatim>\<open>moodbot.py\<close> is embedded below under its own name.

  Conventions.
  \<^item> A Python \<^verbatim>\<open>str\<close> that may hold arbitrary text is a list of Unicode code points
    (\<open>ustr\<close>). A Python \<^verbatim>\<open>bytes\<close> object and the ASCII constants of the program
    (sentiment names, labels, dates) are HOL strings, whose characters are bytes.
  \<^item> Scores are Python floats. The only test the program applies to a score is
    \<^verbatim>\<open>score > 0.6\<close>; the embedding takes scores as real numbers and the threshold as
    \<open>6/10\<close>. For a float the two tests agree: the float written \<^verbatim>\<open>0.6\<close> is the one
    closest to \<open>6/10\<close>, so no float lies between them. The product \<^verbatim>\<open>score * 100\<close> and
    the percentages of the chart are taken as reals as well, without rounding.
  \<^item> What lies outside the file is a parameter: the Unicode tables behind \<^verbatim>\<open>\w\<close> and
    \<^verbatim>\<open>\d\<close>, the emoji library, hazm's normalizer and the classifier (record \<open>extern\<close>);
    the random id, the clock and the availability of the database (record \<open>env\<close>).
  \<^item> An exception is a value of \<open>py_exn\<close>. A handler returns the exception it raised, if
    any, together with the state it leaves behind.
  \<^item> Calls to the Telegram client are recorded in the order they are issued
    (\<open>outbox\<close>); the delivery itself is not modelled.
\<close>

subsection \<open>Text\<close>

type_synonym ustr = "nat list"

text \<open>An ASCII literal of the program, as a \<^verbatim>\<open>str\<close>.\<close>

definition u :: "string \<Rightarrow> ustr" where
  "u s = map of_char s"

datatype py_exn =
    OperationalError
  | IntegrityError
  | UnicodeDecodeError
  | IndexError
  | ZeroDivisionError

text \<open>
  \<^verbatim>\<open>\s\<close> in a \<^verbatim>\<open>str\<close> pattern and \<^verbatim>\<open>str.strip()\<close> both use CPython's
  \<^verbatim>\<open>Py_UNICODE_ISSPACE\<close>: U+0009..U+000D, U+001C..U+0020, U+0085, U+00A0, U+1680,
  U+2000..U+200A, U+2028, U+2029, U+202F, U+205F, U+3000.
\<close>

definition is_space :: "nat \<Rightarrow> bool" where
  "is_space c \<longleftrightarrow>
     (9 \<le> c \<and> c \<le> 13) \<or> (28 \<le> c \<and> c \<le> 32) \<or> c = 133 \<or> c = 160 \<or> c = 5760 \<or>
     (8192 \<le> c \<and> c \<le> 8202) \<or> c = 8232 \<or> c = 8233 \<or> c = 8239 \<or> c = 8287 \<or>
     c = 12288"

text \<open>
  The collaborators of the program that are not part of the file.
  \<open>uni_alnum\<close> and \<open>uni_decimal\<close> are CPython's \<^verbatim>\<open>Py_UNICODE_ISALNUM\<close> and
  \<^verbatim>\<open>Py_UNICODE_ISDECIMAL\<close>, which decide \<^verbatim>\<open>\w\<close> and \<^verbatim>\<open>\d\<close>;
  \<open>replace_emoji\<close> is \<^verbatim>\<open>emoji.replace_emoji(text, replace="")\<close>;
  \<open>normalize\<close> is \<^verbatim>\<open>hazm.Normalizer().normalize\<close>;
  \<open>sentiment_pipeline\<close> is the transformers pipeline, which either raises or returns a
  list of label and score pairs.
\<close>

datatype pipeline_result = Raises | Result "(string \<times> real) list"

record extern =
  uni_alnum :: "nat \<Rightarrow> bool"
  uni_decimal :: "nat \<Rightarrow> bool"
  replace_emoji :: "ustr \<Rightarrow> ustr"
  normalize :: "ustr \<Rightarrow> ustr"
  sentiment_pipeline :: "ustr \<Rightarrow> pipeline_result"

definition re_w :: "extern \<Rightarrow> nat \<Rightarrow> bool" where
  "re_w X c \<longleftrightarrow> uni_alnum X c \<or> c = 95"

definition re_S :: "nat \<Rightarrow> bool" where
  "re_S c \<longleftrightarrow> \<not> is_space c"

definition ascii_letter :: "nat \<Rightarrow> bool" where
  "ascii_letter c \<longleftrightarrow> (65 \<le> c \<and> c \<le> 90) \<or> (97 \<le> c \<and> c \<le> 122)"

text \<open>The block U+0600..U+06FF of the character class \<^verbatim>\<open>[^\u0600-\u06FF\s]\<close>.\<close>

definition arabic_block :: "nat \<Rightarrow> bool" where
  "arabic_block c \<longleftrightarrow> 1536 \<le> c \<and> c \<le> 1791"

subsection \<open>The regular expressions of preprocess\_text\<close>

text \<open>
  A pattern of the form \<^verbatim>\<open>lit1 C+ | lit2 C+ | ...\<close> (literal prefixes, then one or more
  characters of the class \<open>C\<close>) matches at the start of \<open>s\<close> with the first literal that
  is a prefix of \<open>s\<close> and is followed by a character of \<open>C\<close>; the match is greedy and
  nothing follows \<open>C+\<close>, so it takes the whole run. \<open>match_len\<close> is the length of
  the match.
\<close>

definition lit_plus_matches :: "(nat \<Rightarrow> bool) \<Rightarrow> ustr \<Rightarrow> ustr \<Rightarrow> bool" where
  "lit_plus_matches cls s lit \<longleftrightarrow>
     take (length lit) s = lit \<and>
     (case drop (length lit) s of [] \<Rightarrow> False | d # _ \<Rightarrow> cls d)"

definition match_len :: "ustr list \<Rightarrow> (nat \<Rightarrow> bool) \<Rightarrow> ustr \<Rightarrow> nat option" where
  "match_len lits cls s =
     (case List.find (lit_plus_matches cls s) lits of
        None \<Rightarrow> None
      | Some lit \<Rightarrow> Some (length lit + length (takeWhile cls (drop (length lit) s))))"

text \<open>
  \<^verbatim>\<open>re.sub(pattern, "", text)\<close> for such a pattern: scan from the left, delete each
  match and go on behind it. \<open>k\<close> counts the characters of the current match that are
  still to be deleted.
\<close>

fun re_sub_del :: "ustr list \<Rightarrow> (nat \<Rightarrow> bool) \<Rightarrow> nat \<Rightarrow> ustr \<Rightarrow> ustr" where
  "re_sub_del lits cls k [] = []"
| "re_sub_del lits cls k (c # cs) =
     (if 0 < k then re_sub_del lits cls (k - 1) cs
      else (case match_len lits cls (c # cs) of
              Some n \<Rightarrow> re_sub_del lits cls (n - 1) cs
            | None \<Rightarrow> c # re_sub_del lits cls 0 cs))"

text \<open>
  \<^verbatim>\<open>re.search(pattern, text) is not None\<close> for such a pattern: a match starts at some
  position of the text.
\<close>

fun re_search :: "ustr list \<Rightarrow> (nat \<Rightarrow> bool) \<Rightarrow> ustr \<Rightarrow> bool" where
  "re_search lits cls [] = False"
| "re_search lits cls (c # cs) = (match_len lits cls (c # cs) \<noteq> None \<or> re_search lits cls cs)"

text \<open>
  \<^verbatim>\<open>re.sub(r"\s+", " ", text)\<close>: every maximal run of whitespace becomes one space.
  \<open>in_run\<close> says that the previous character was whitespace.
\<close>

fun collapse_ws :: "bool \<Rightarrow> ustr \<Rightarrow> ustr" where
  "collapse_ws in_run [] = []"
| "collapse_ws in_run (c # cs) =
     (if is_space c then (if in_run then collapse_ws True cs else 32 # collapse_ws True cs)
      else c # collapse_ws False cs)"

definition strip :: "ustr \<Rightarrow> ustr" where
  "strip s = rev (dropWhile is_space (rev (dropWhile is_space s)))"

text \<open>
  \<^verbatim>\<open>preprocess_text\<close>, one line of the source per binding. Deleting every match of a
  single character class (\<^verbatim>\<open>[a-zA-Z]\<close>, \<^verbatim>\<open>[^\u0600-\u06FF\s]\<close>) or of its runs
  (\<^verbatim>\<open>\d+\<close>) keeps exactly the characters outside the class.
\<close>

definition preprocess_text :: "extern \<Rightarrow> ustr \<Rightarrow> ustr" where
  "preprocess_text X text0 =
     (let text1 = re_sub_del [u ''http'', u ''www.''] re_S 0 text0;
          text2 = re_sub_del [u ''@''] (re_w X) 0 text1;
          text3 = re_sub_del [u ''#''] (re_w X) 0 text2;
          text4 = replace_emoji X text3;
          text5 = filter (\<lambda>c. \<not> ascii_letter c) text4;
          text6 = filter (\<lambda>c. arabic_block c \<or> is_space c) text5;
          text7 = strip (collapse_ws False text6);
          text8 = normalize X text7;
          text9 = filter (\<lambda>c. \<not> uni_decimal X c) text8
      in text9)"

subsection \<open>The classifier\<close>

text \<open>
  \<^verbatim>\<open>analyze_sentiment\<close>. The \<^verbatim>\<open>try\<close> block covers the call of the pipeline and the
  reads \<^verbatim>\<open>result[0]["label"]\<close> and \<^verbatim>\<open>result[0]["score"]\<close>; an empty result raises
  \<^verbatim>\<open>IndexError\<close> inside the block, which the handler catches like any other exception.
\<close>

definition analyze_sentiment :: "extern \<Rightarrow> ustr \<Rightarrow> string \<times> real" where
  "analyze_sentiment X text0 =
     (case sentiment_pipeline X text0 of
        Raises \<Rightarrow> (''ERROR'', 0)
      | Result [] \<Rightarrow> (''ERROR'', 0)
      | Result ((label, score) # _) \<Rightarrow>
          if label = ''HAPPY'' then (''POSITIVE'', score)
          else if label = ''SAD'' then (''NEGATIVE'', score)
          else (''NEUTRAL'', score))"

subsection \<open>The record store\<close>

text \<open>The table \<^verbatim>\<open>sentiment_data\<close>; its primary key is \<^verbatim>\<open>id\<close>.\<close>

record sentiment_row =
  row_id :: ustr
  row_text :: ustr
  row_sentiment :: string
  row_score :: real
  row_label :: "string option"
  row_timestamp :: nat

text \<open>
  What a handler reads from its surroundings: the value of \<^verbatim>\<open>uuid.uuid4()\<close>, whether
  SQLite can be reached and written (if not, \<^verbatim>\<open>sqlite3\<close> raises
  \<^verbatim>\<open>OperationalError\<close> and nothing is committed), and the clock.
\<close>

record env =
  uuid4 :: ustr
  db_available :: bool
  today :: string
  yesterday :: string
  now :: nat

text \<open>
  \<^verbatim>\<open>save_message_data\<close>: an \<^verbatim>\<open>INSERT\<close> of a row whose key is already in the table
  violates the primary key and raises \<^verbatim>\<open>IntegrityError\<close>.
\<close>

definition save_message_data ::
  "env \<Rightarrow> sentiment_row list \<Rightarrow> ustr \<Rightarrow> string \<Rightarrow> real \<Rightarrow> string option
     \<Rightarrow> py_exn + (ustr \<times> sentiment_row list)" where
  "save_message_data E tbl message_text sentiment score label =
     (let unique_id = uuid4 E in
      if \<not> db_available E then Inl OperationalError
      else if unique_id \<in> set (map row_id tbl) then Inl IntegrityError
      else Inr (unique_id,
                tbl @ [\<lparr>row_id = unique_id, row_text = message_text,
                        row_sentiment = sentiment, row_score = score,
                        row_label = label, row_timestamp = now E\<rparr>]))"

text \<open>
  \<^verbatim>\<open>update_feedback_in_dataset\<close>: an \<^verbatim>\<open>UPDATE ... WHERE id = ?\<close>. The statement
  changes the rows that match and reports nothing when none does; the function returns
  \<^verbatim>\<open>None\<close>, so the result here is the table alone.
\<close>

definition update_feedback_in_dataset ::
  "env \<Rightarrow> sentiment_row list \<Rightarrow> ustr \<Rightarrow> string \<Rightarrow> py_exn + sentiment_row list" where
  "update_feedback_in_dataset E tbl unique_id label =
     (if \<not> db_available E then Inl OperationalError
      else Inr (map (\<lambda>r. if row_id r = unique_id then r\<lparr>row_label := Some label\<rparr> else r)
                    tbl))"

subsection \<open>State and outgoing calls\<close>

type_synonym chart = "string list \<times> real list \<times> real list \<times> real list"

datatype outbound =
    Alert int real ustr ustr "(string \<times> ustr) list"
  | Summary int string int int int chart
  | NoData int string
  | Answer string
  | DeleteMessage

text \<open>
  \<open>Alert dest percentage text title buttons\<close> is the \<^verbatim>\<open>send_message\<close> of
  \<^verbatim>\<open>mood_analyzer\<close>, each button with its caption and its \<^verbatim>\<open>data\<close>;
  \<open>Summary dest day pos neu neg chart\<close> and \<open>NoData dest day\<close> are the two messages of
  \<^verbatim>\<open>daily_mood_summary\<close>; \<open>Answer\<close> is \<^verbatim>\<open>event.answer\<close> and \<open>DeleteMessage\<close> is
  the deletion of the alert the callback belongs to.
\<close>

record config =
  admin_group_id :: int
  group_id :: int

record state =
  sentiment_data :: "sentiment_row list"
  messages_data :: "(string \<times> string list) list"
  outbox :: "outbound list"

record message_event =
  is_group :: bool
  raw_text :: ustr
  chat_id :: int
  chat_title :: "ustr option"

record callback_event =
  data :: string

subsection \<open>The chart and the daily summary\<close>

text \<open>\<^verbatim>\<open>sum(1 for s in sentiments if s == x)\<close>\<close>

definition count_sum :: "string \<Rightarrow> string list \<Rightarrow> int" where
  "count_sum x sentiments = sum_list (map (\<lambda>s. 1) (filter (\<lambda>s. s = x) sentiments))"

text \<open>
  The loop of \<^verbatim>\<open>generate_mood_chart\<close>. \<open>daily_data\<close> is a \<^verbatim>\<open>defaultdict(list)\<close>,
  so a read of an absent key gives the empty list. The three quotients are float
  divisions; a day with no sentiment raises \<^verbatim>\<open>ZeroDivisionError\<close>. The percentages
  are taken as reals.
\<close>

fun mood_series ::
  "(string \<times> string list) list \<Rightarrow> string list \<Rightarrow> py_exn + (real list \<times> real list \<times> real list)"
  where
  "mood_series daily_data [] = Inr ([], [], [])"
| "mood_series daily_data (date # dates) =
     (let sentiments = (case map_of daily_data date of None \<Rightarrow> [] | Some v \<Rightarrow> v);
          total = int (length sentiments);
          pos_count = count_sum ''POSITIVE'' sentiments;
          neg_count = count_sum ''NEGATIVE'' sentiments;
          neu_count = total - pos_count - neg_count
      in if total = 0 then Inl ZeroDivisionError
         else (case mood_series daily_data dates of
                 Inl e \<Rightarrow> Inl e
               | Inr (positive, neutral, negative) \<Rightarrow>
                   Inr (real_of_int pos_count / real_of_int total * 100 # positive,
                        real_of_int neu_count / real_of_int total * 100 # neutral,
                        real_of_int neg_count / real_of_int total * 100 # negative)))"

definition generate_mood_chart :: "(string \<times> string list) list \<Rightarrow> py_exn + chart" where
  "generate_mood_chart daily_data =
     (let dates = sort (map fst daily_data) in
      case mood_series daily_data dates of
        Inl e \<Rightarrow> Inl e
      | Inr (positive, neutral, negative) \<Rightarrow> Inr (dates, positive, neutral, negative))"

definition daily_mood_summary :: "config \<Rightarrow> env \<Rightarrow> state \<Rightarrow> py_exn option \<times> state" where
  "daily_mood_summary C E st =
     (case map_of (messages_data st) (yesterday E) of
        None \<Rightarrow> (None, st\<lparr>outbox := outbox st @ [NoData (admin_group_id C) (yesterday E)]\<rparr>)
      | Some bucket \<Rightarrow>
          if bucket = []
          then (None, st\<lparr>outbox := outbox st @ [NoData (admin_group_id C) (yesterday E)]\<rparr>)
          else (case generate_mood_chart (messages_data st) of
                  Inl e \<Rightarrow> (Some e, st)
                | Inr summary_file \<Rightarrow>
                    let pos_count = count_sum ''POSITIVE'' bucket;
                        neg_count = count_sum ''NEGATIVE'' bucket;
                        neu_count = int (length bucket) - pos_count - neg_count
                    in (None, st\<lparr>outbox := outbox st @
                          [Summary (admin_group_id C) (yesterday E)
                             pos_count neu_count neg_count summary_file]\<rparr>)))"

subsection \<open>Ingestion\<close>

text \<open>
  \<^verbatim>\<open>mood_analyzer\<close>. The handler is registered with \<^verbatim>\<open>events.NewMessage()\<close>, without
  a chat filter, so it receives every new message the bot can see. The only call that
  can raise before the alert is \<^verbatim>\<open>save_message_data\<close>; its exception leaves the
  handler at once.
\<close>

definition mood_analyzer ::
  "extern \<Rightarrow> config \<Rightarrow> env \<Rightarrow> message_event \<Rightarrow> state \<Rightarrow> py_exn option \<times> state" where
  "mood_analyzer X C E event st =
     (if is_group event \<and> raw_text event \<noteq> [] then
        (let message_text = preprocess_text X (raw_text event);
             (sentiment, score) = analyze_sentiment X message_text
         in case save_message_data E (sentiment_data st) message_text sentiment score None of
              Inl e \<Rightarrow> (Some e, st)
            | Inr (unique_id, tbl) \<Rightarrow>
                (let st1 = st\<lparr>sentiment_data := tbl,
                               messages_data :=
                                 AList.update (today E)
                                   ((case map_of (messages_data st) (today E) of
                                       None \<Rightarrow> [] | Some v \<Rightarrow> v) @ [sentiment])
                                   (messages_data st)\<rparr>
                 in if sentiment = ''NEGATIVE'' \<and> score > 6 / 10 then
                      (let negativity_percentage = score * 100
                       in (None, st1\<lparr>outbox := outbox st1 @
                             [Alert (admin_group_id C) negativity_percentage message_text
                                (case chat_title event of None \<Rightarrow> u ''Unknown'' | Some t \<Rightarrow> t)
                                [(''Negative'', u ''label_negative:'' @ unique_id),
                                 (''Not Negative'', u ''label_not_negative:'' @ unique_id)]]\<rparr>))
                    else (None, st1)))
      else (None, st))"

subsection \<open>Feedback\<close>

text \<open>
  \<^verbatim>\<open>bytes.decode("utf-8")\<close> with the default strict error handling: shortest
  encodings only, no surrogates, nothing above U+10FFFF.
\<close>

definition cont_byte :: "char \<Rightarrow> bool" where
  "cont_byte b \<longleftrightarrow> 128 \<le> (of_char b :: nat) \<and> (of_char b :: nat) < 192"

definition cons_cp :: "nat \<Rightarrow> py_exn + ustr \<Rightarrow> py_exn + ustr" where
  "cons_cp cp r = (case r of Inl e \<Rightarrow> Inl e | Inr cps \<Rightarrow> Inr (cp # cps))"

fun decode_utf8 :: "string \<Rightarrow> py_exn + ustr" where
  "decode_utf8 [] = Inr []"
| "decode_utf8 (b0 # bs) =
     (let n0 = (of_char b0 :: nat) in
      if n0 < 128 then cons_cp n0 (decode_utf8 bs)
      else if 194 \<le> n0 \<and> n0 \<le> 223 then
        (case bs of
           b1 # r \<Rightarrow>
             if cont_byte b1
             then cons_cp ((n0 - 192) * 64 + (of_char b1 - 128)) (decode_utf8 r)
             else Inl UnicodeDecodeError
         | _ \<Rightarrow> Inl UnicodeDecodeError)
      else if 224 \<le> n0 \<and> n0 \<le> 239 then
        (case bs of
           b1 # b2 # r \<Rightarrow>
             (let cp = (n0 - 224) * 4096 + (of_char b1 - 128) * 64 + (of_char b2 - 128)
              in if cont_byte b1 \<and> cont_byte b2 \<and> 2048 \<le> cp \<and> \<not> (55296 \<le> cp \<and> cp \<le> 57343)
                 then cons_cp cp (decode_utf8 r)
                 else Inl UnicodeDecodeError)
         | _ \<Rightarrow> Inl UnicodeDecodeError)
      else if 240 \<le> n0 \<and> n0 \<le> 244 then
        (case bs of
           b1 # b2 # b3 # r \<Rightarrow>
             (let cp = (n0 - 240) * 262144 + (of_char b1 - 128) * 4096 +
                       (of_char b2 - 128) * 64 + (of_char b3 - 128)
              in if cont_byte b1 \<and> cont_byte b2 \<and> cont_byte b3 \<and> 65536 \<le> cp \<and> cp \<le> 1114111
                 then cons_cp cp (decode_utf8 r)
                 else Inl UnicodeDecodeError)
         | _ \<Rightarrow> Inl UnicodeDecodeError)
      else Inl UnicodeDecodeError)"

text \<open>\<^verbatim>\<open>sub in s\<close> for two strings.\<close>

fun contains :: "ustr \<Rightarrow> ustr \<Rightarrow> bool" where
  "contains sub [] = (sub = [])"
| "contains sub (c # cs) = (take (length sub) (c # cs) = sub \<or> contains sub cs)"

text \<open>\<^verbatim>\<open>s.split(sep, 1)\<close> for a separator of one character, and \<^verbatim>\<open>xs[i]\<close>.\<close>

definition split1 :: "nat \<Rightarrow> ustr \<Rightarrow> ustr list" where
  "split1 sep s =
     (if sep \<in> set s
      then [takeWhile (\<lambda>c. c \<noteq> sep) s, tl (dropWhile (\<lambda>c. c \<noteq> sep) s)]
      else [s])"

definition getitem :: "'a list \<Rightarrow> nat \<Rightarrow> py_exn + 'a" where
  "getitem xs i = (if i < length xs then Inr (xs ! i) else Inl IndexError)"

text \<open>
  \<^verbatim>\<open>handle_feedback\<close>. Nothing in the handler catches an exception: a payload that is
  not UTF-8, a payload without a colon and a failing \<^verbatim>\<open>UPDATE\<close> each end it before
  \<^verbatim>\<open>event.answer\<close>.
\<close>

definition handle_feedback :: "env \<Rightarrow> callback_event \<Rightarrow> state \<Rightarrow> py_exn option \<times> state" where
  "handle_feedback E event st =
     (case decode_utf8 (data event) of
        Inl e \<Rightarrow> (Some e, st)
      | Inr data0 \<Rightarrow>
          (let label = (if contains (u ''label_negative'') data0
                        then ''negative'' else ''not_negative'')
           in case getitem (split1 58 data0) 1 of
                Inl e \<Rightarrow> (Some e, st)
              | Inr unique_id \<Rightarrow>
                  (case update_feedback_in_dataset E (sentiment_data st) unique_id label of
                     Inl e \<Rightarrow> (Some e, st)
                   | Inr tbl \<Rightarrow>
                       (None, st\<lparr>sentiment_data := tbl,
                                  outbox := outbox st @
                                    [Answer ''Feedback recorded! Thank you.'',
                                     DeleteMessage]\<rparr>))))"

subsection \<open>Record ids and a stand-in for the collaborators\<close>

text \<open>
  A record id is \<^verbatim>\<open>str(uuid.uuid4())\<close>: lower-case hexadecimal digits and hyphens.
  Its UTF-8 encoding, which Telegram hands back as the payload of a button, consists
  of the same ASCII characters.
\<close>

definition uuid_char :: "char \<Rightarrow> bool" where
  "uuid_char c \<longleftrightarrow> c \<in> set ''0123456789abcdef-''"

text \<open>
  For the worked examples: Unicode tables that are right on ASCII and on U+0600..U+06FF
  (letters and digits of both), an emoji library that knows the block U+1F600..U+1F64F,
  a normalizer that leaves its input as it is, and a classifier that answers \<open>r\<close>.
\<close>

definition sample_extern :: "pipeline_result \<Rightarrow> extern" where
  "sample_extern r =
     \<lparr>uni_alnum = (\<lambda>c. (48 \<le> c \<and> c \<le> 57) \<or> ascii_letter c \<or> (1568 \<le> c \<and> c \<le> 1610) \<or>
                       (1632 \<le> c \<and> c \<le> 1641) \<or> (1646 \<le> c \<and> c \<le> 1647) \<or>
                       (1649 \<le> c \<and> c \<le> 1747) \<or> c = 1749 \<or> (1765 \<le> c \<and> c \<le> 1766) \<or>
                       (1774 \<le> c \<and> c \<le> 1788) \<or> c = 1791),
      uni_decimal = (\<lambda>c. (48 \<le> c \<and> c \<le> 57) \<or> (1632 \<le> c \<and> c \<le> 1641) \<or>
                         (1776 \<le> c \<and> c \<le> 1785)),
      replace_emoji = filter (\<lambda>c. \<not> (128512 \<le> c \<and> c \<le> 128591)),
      normalize = (\<lambda>t. t),
      sentiment_pipeline = (\<lambda>t. r)\<rparr>"

definition sample_config :: config where
  "sample_config = \<lparr>admin_group_id = 1001, group_id = 1002\<rparr>"

definition sample_env :: "bool \<Rightarrow> env" where
  "sample_env available =
     \<lparr>uuid4 = u ''1b4e28ba-2fa1-41d2-883f-0016d3cca427'', db_available = available,
      today = ''2024-03-02'', yesterday = ''2024-03-01'', now = 0\<rparr>"

definition empty_state :: state where
  "empty_state = \<lparr>sentiment_data = [], messages_data = [], outbox = []\<rparr>"

section \<open>Properties\<close>

subsection \<open>Auxiliary facts\<close>

lemmas text_defs = preprocess_text_def u_def match_len_def lit_plus_matches_def re_S_def re_w_def
  is_space_def ascii_letter_def arabic_block_def strip_def

lemma sample_preprocess_salam:
  "preprocess_text (sample_extern r) [1587, 1604, 1575, 1605] = [1587, 1604, 1575, 1605]"
  by (simp add: text_defs sample_extern_def)

lemma map_of_update_same: "map_of (AList.update k v al) k = Some v"
  by (simp add: update_conv')

lemma count_sum_length: "count_sum x xs = int (length (filter (\<lambda>s. s = x) xs))"
  by (induction xs) (simp_all add: count_sum_def)

lemma residual_count:
  "int (length xs) - count_sum ''POSITIVE'' xs - count_sum ''NEGATIVE'' xs =
     int (length (filter (\<lambda>s. s \<noteq> ''POSITIVE'' \<and> s \<noteq> ''NEGATIVE'') xs))"
  by (induction xs) (auto simp: count_sum_length)

lemma error_in_residual:
  "int (length (filter (\<lambda>s. s = ''ERROR'') xs))
     \<le> int (length (filter (\<lambda>s. s \<noteq> ''POSITIVE'' \<and> s \<noteq> ''NEGATIVE'') xs))"
  by (induction xs) auto

lemma mood_series_total:
  assumes "[] \<notin> set (map snd daily_data)" and "set dates \<subseteq> set (map fst daily_data)"
  shows "\<exists>r. mood_series daily_data dates = Inr r"
  using assms(2)
proof (induction dates)
  case Nil
  then show ?case by simp
next
  case (Cons date dates)
  then obtain r where r: "mood_series daily_data dates = Inr r" by auto
  from Cons.prems have "date \<in> fst ` set daily_data" by simp
  then obtain b where b: "map_of daily_data date = Some b"
    by (metis domD dom_map_of_conv_image_fst)
  then have "(date, b) \<in> set daily_data" by (rule map_of_SomeD)
  with assms(1) have "b \<noteq> []" by force
  with r b show ?case
    by (cases r) (simp add: Let_def)
qed

lemma generate_mood_chart_total:
  assumes "[] \<notin> set (map snd daily_data)"
  shows "\<exists>chart. generate_mood_chart daily_data = Inr chart"
proof -
  have "set (sort (map fst daily_data)) \<subseteq> set (map fst daily_data)" by simp
  from mood_series_total [OF assms this]
  obtain r where "mood_series daily_data (sort (map fst daily_data)) = Inr r" by blast
  then show ?thesis
    by (cases r) (simp add: generate_mood_chart_def)
qed

lemma update_values: "set (map snd (AList.update k v al)) \<subseteq> insert v (set (map snd al))"
  by (induction al) auto

lemma mood_analyzer_keeps_lists_nonempty:
  assumes "[] \<notin> set (map snd (messages_data st))"
  shows "[] \<notin> set (map snd (messages_data (snd (mood_analyzer X C E event st))))"
proof -
  have "\<And>w. w \<noteq> [] \<Longrightarrow> [] \<notin> set (map snd (AList.update (today E) w (messages_data st)))"
    using assms update_values [of "today E" _ "messages_data st"] by blast
  then show ?thesis
    using assms
    by (auto simp add: mood_analyzer_def Let_def split: prod.splits sum.splits simp del: set_map)
qed

lemma split1_colon:
  "58 \<in> set d \<Longrightarrow> getitem (split1 58 d) (Suc 0) = Inr (tl (dropWhile (\<lambda>c. c \<noteq> 58) d))"
  by (simp add: split1_def getitem_def)

lemma uuid_char_ascii: "uuid_char c \<Longrightarrow> (of_char c :: nat) < 128"
  by (auto simp: uuid_char_def)

lemma uuid_char_not_l: "uuid_char c \<Longrightarrow> (of_char c :: nat) \<noteq> 108"
  by (auto simp: uuid_char_def)

lemma decode_utf8_ascii:
  "list_all (\<lambda>c. (of_char c :: nat) < 128) s \<Longrightarrow> decode_utf8 s = Inr (u s)"
  by (induction s) (simp_all add: u_def cons_cp_def)

lemma contains_needs_first:
  "c \<notin> set s \<Longrightarrow> \<not> contains (c # sub) s"
  by (induction s) auto

lemma uuid_no_label_negative:
  assumes "list_all uuid_char uid"
  shows "\<not> contains (u ''label_negative'') (u uid)"
proof -
  have "108 \<notin> set (u uid)"
    using assms by (induction uid) (auto simp: u_def dest: uuid_char_not_l)
  then show ?thesis
    by (simp add: u_def contains_needs_first)
qed

lemma not_negative_payload_has_no_label_negative:
  "\<not> contains (u ''label_negative'') (u uid) \<Longrightarrow>
   \<not> contains (u ''label_negative'') (u ''label_not_negative:'' @ u uid)"
  by (simp add: u_def)

lemma negative_payload_has_label_negative:
  "contains (u ''label_negative'') (u ''label_negative:'' @ u uid)"
  by (simp add: u_def)

lemma payload_ascii:
  "list_all uuid_char uid \<Longrightarrow> list_all (\<lambda>c. (of_char c :: nat) < 128) uid"
  by (induction uid) (auto dest: uuid_char_ascii)

lemma re_sub_del_skip: "re_sub_del lits cls k s = re_sub_del lits cls 0 (drop k s)"
proof (induction s arbitrary: k)
  case Nil
  then show ?case by simp
next
  case (Cons c cs)
  show ?case
  proof (cases k)
    case 0
    then show ?thesis by simp
  next
    case (Suc j)
    then show ?thesis using Cons.IH [of j] by simp
  qed
qed

lemma match_len_None:
  "match_len lits cls s = None \<longleftrightarrow> (\<forall>lit \<in> set lits. \<not> lit_plus_matches cls s lit)"
proof -
  have "match_len lits cls s = None \<longleftrightarrow> List.find (lit_plus_matches cls s) lits = None"
    by (simp add: match_len_def split: option.splits)
  then show ?thesis by (auto simp: find_None_iff)
qed

lemma match_len_Some:
  assumes "match_len lits cls s = Some n"
  shows "0 < n \<and> n \<le> length s \<and> (drop n s = [] \<or> \<not> cls (hd (drop n s)))"
proof -
  from assms obtain lit where m: "lit_plus_matches cls s lit"
    and n: "n = length lit + length (takeWhile cls (drop (length lit) s))"
    by (auto simp: match_len_def find_Some_iff split: option.splits)
  let ?r = "drop (length lit) s"
  from m obtain d r where r: "?r = d # r" and d: "cls d"
    by (auto simp: lit_plus_matches_def split: list.splits)
  from r d have pos: "0 < length (takeWhile cls ?r)" by simp
  have le: "length (takeWhile cls ?r) \<le> length ?r" by (rule length_takeWhile_le)
  from m have "length (take (length lit) s) = length lit"
    by (simp add: lit_plus_matches_def)
  then have ll: "length lit \<le> length s" by simp
  have "drop n s = drop (length (takeWhile cls ?r)) ?r"
    by (simp add: n add.commute)
  also have "\<dots> = dropWhile cls ?r" by (rule dropWhile_eq_drop [symmetric])
  finally have dn: "drop n s = dropWhile cls ?r" .
  have "dropWhile cls ?r = [] \<or> \<not> cls (hd (dropWhile cls ?r))"
    using hd_dropWhile [of cls ?r] by blast
  with dn pos le ll n show ?thesis by auto
qed


lemma re_sub_del_boundary:
  "s = [] \<or> \<not> cls (hd s) \<Longrightarrow>
   re_sub_del lits cls 0 s = [] \<or> \<not> cls (hd (re_sub_del lits cls 0 s))"
proof (induction s rule: length_induct)
  case (1 s)
  show ?case
  proof (cases s)
    case Nil
    then show ?thesis by simp
  next
    case (Cons c cs)
    with "1.prems" have c: "\<not> cls c" by simp
    show ?thesis
    proof (cases "match_len lits cls s")
      case None
      with Cons c show ?thesis by simp
    next
      case (Some n)
      from match_len_Some [OF Some]
      have n: "0 < n" "n \<le> length s" and b: "drop n s = [] \<or> \<not> cls (hd (drop n s))"
        by simp_all
      from n Cons have short: "length (drop n s) < length s" by simp
      have "re_sub_del lits cls 0 s = re_sub_del lits cls (n - 1) cs"
        using Cons Some by simp
      also have "\<dots> = re_sub_del lits cls 0 (drop (n - 1) cs)" by (rule re_sub_del_skip)
      also have "drop (n - 1) cs = drop n s" using n Cons by (cases n) simp_all
      finally have eq: "re_sub_del lits cls 0 s = re_sub_del lits cls 0 (drop n s)" .
      from "1.IH" short b show ?thesis unfolding eq by blast
    qed
  qed
qed

lemma re_sub_del_prefix:
  assumes "re_sub_del lits cls 0 s = xs @ r" and "list_all cls xs"
  shows "\<exists>r'. s = xs @ r'"
  using assms
proof (induction s arbitrary: xs)
  case Nil
  then show ?case by simp
next
  case (Cons c cs)
  show ?case
  proof (cases xs)
    case Nil
    then show ?thesis by simp
  next
    case (Cons x xs')
    with Cons.prems(2) have x: "cls x" and xs': "list_all cls xs'" by simp_all
    show ?thesis
    proof (cases "match_len lits cls (c # cs)")
      case None
      with Cons.prems(1) Cons have "c = x" and "re_sub_del lits cls 0 cs = xs' @ r" by simp_all
      with Cons.IH [OF _ xs'] Cons show ?thesis by auto
    next
      case (Some n)
      from match_len_Some [OF Some]
      have n: "0 < n" and b: "drop n (c # cs) = [] \<or> \<not> cls (hd (drop n (c # cs)))"
        by simp_all
      have "re_sub_del lits cls 0 (c # cs) = re_sub_del lits cls (n - 1) cs"
        using Some by simp
      also have "\<dots> = re_sub_del lits cls 0 (drop (n - 1) cs)" by (rule re_sub_del_skip)
      also have "drop (n - 1) cs = drop n (c # cs)" using n by (cases n) simp_all
      finally have eq: "re_sub_del lits cls 0 (c # cs) = re_sub_del lits cls 0 (drop n (c # cs))" .
      from re_sub_del_boundary [of "drop n (c # cs)" cls lits] b
      have "re_sub_del lits cls 0 (c # cs) = [] \<or> \<not> cls (hd (re_sub_del lits cls 0 (c # cs)))"
        unfolding eq .
      with Cons.prems(1) Cons x show ?thesis by simp
    qed
  qed
qed

lemma no_match_after_emit:
  assumes lits: "\<forall>lit \<in> set lits. lit \<noteq> [] \<and> list_all cls (tl lit)"
      and none: "match_len lits cls (c # cs) = None"
  shows "match_len lits cls (c # re_sub_del lits cls 0 cs) = None"
proof (rule ccontr)
  assume "match_len lits cls (c # re_sub_del lits cls 0 cs) \<noteq> None"
  then obtain lit where lit: "lit \<in> set lits"
    and m: "lit_plus_matches cls (c # re_sub_del lits cls 0 cs) lit"
    by (auto simp: match_len_None)
  from lits lit obtain l ls where l: "lit = l # ls" and ls: "list_all cls ls"
    by (cases lit) auto
  let ?o = "re_sub_del lits cls 0 cs"
  from m l have lc: "l = c" and pre: "take (length ls) ?o = ls"
    by (simp_all add: lit_plus_matches_def)
  from m l obtain d r where dr: "drop (length ls) ?o = d # r" and d: "cls d"
    by (auto simp: lit_plus_matches_def split: list.splits)
  have "?o = take (length ls) ?o @ drop (length ls) ?o" by simp
  with pre dr have o: "?o = (ls @ [d]) @ r" by simp
  from ls d have "list_all cls (ls @ [d])" by simp
  from re_sub_del_prefix [OF o this] obtain r' where cs: "cs = (ls @ [d]) @ r'" by blast
  have "lit_plus_matches cls (c # cs) lit"
    using l lc d by (simp add: lit_plus_matches_def cs)
  with lit none show False by (auto simp: match_len_None)
qed

lemma re_sub_del_no_match:
  assumes "\<forall>lit \<in> set lits. lit \<noteq> [] \<and> list_all cls (tl lit)"
  shows "\<not> re_search lits cls (re_sub_del lits cls 0 s)"
proof (induction s rule: length_induct)
  case (1 s)
  show ?case
  proof (cases s)
    case Nil
    then show ?thesis by simp
  next
    case (Cons c cs)
    show ?thesis
    proof (cases "match_len lits cls s")
      case None
      from "1.IH" Cons have "\<not> re_search lits cls (re_sub_del lits cls 0 cs)" by simp
      moreover from no_match_after_emit [OF assms] None Cons
      have "match_len lits cls (c # re_sub_del lits cls 0 cs) = None" by simp
      ultimately show ?thesis using None Cons by simp
    next
      case (Some n)
      from match_len_Some [OF Some] have n: "0 < n" "n \<le> length s" by simp_all
      from n Cons have short: "length (drop n s) < length s" by simp
      have "re_sub_del lits cls 0 s = re_sub_del lits cls (n - 1) cs"
        using Cons Some by simp
      also have "\<dots> = re_sub_del lits cls 0 (drop (n - 1) cs)" by (rule re_sub_del_skip)
      also have "drop (n - 1) cs = drop n s" using n Cons by (cases n) simp_all
      finally have eq: "re_sub_del lits cls 0 s = re_sub_del lits cls 0 (drop n s)" .
      from "1.IH" short show ?thesis unfolding eq by blast
    qed
  qed
qed

lemma re_search_needs_first:
  assumes "\<forall>lit \<in> set lits. lit \<noteq> [] \<and> hd lit \<notin> set s"
  shows "\<not> re_search lits cls s"
  using assms
proof (induction s)
  case Nil
  then show ?case by simp
next
  case (Cons c cs)
  have "match_len lits cls (c # cs) = None"
    unfolding match_len_None
  proof
    fix lit assume "lit \<in> set lits"
    with Cons.prems obtain l ls where "lit = l # ls" and "l \<noteq> c"
      by (cases lit) auto
    then show "\<not> lit_plus_matches cls (c # cs) lit"
      by (simp add: lit_plus_matches_def)
  qed
  moreover from Cons have "\<not> re_search lits cls cs" by simp
  ultimately show ?case by simp
qed

lemma collapse_ws_chars:
  "list_all (\<lambda>c. P c \<or> is_space c) s \<Longrightarrow> list_all (\<lambda>c. P c \<or> c = 32) (collapse_ws b s)"
  by (induction s arbitrary: b) auto

lemma strip_chars: "list_all P s \<Longrightarrow> list_all P (strip s)"
proof -
  have "set (strip s) \<subseteq> set s"
  proof
    fix x assume "x \<in> set (strip s)"
    then have "x \<in> set (dropWhile is_space (rev (dropWhile is_space s)))"
      by (simp add: strip_def)
    then have "x \<in> set (rev (dropWhile is_space s))" by (rule set_dropWhileD)
    then have "x \<in> set (dropWhile is_space s)" by simp
    then show "x \<in> set s" by (rule set_dropWhileD)
  qed
  then show "list_all P s \<Longrightarrow> list_all P (strip s)"
    by (auto simp: list_all_iff)
qed

lemma script_text_has_no_pattern:
  assumes "list_all (\<lambda>c. arabic_block c \<or> c = 32) s"
  shows "\<not> re_search [u ''http'', u ''www.''] cls s \<and> \<not> re_search [u ''@''] cls s \<and>
         \<not> re_search [u ''#''] cls s \<and> list_all (\<lambda>c. \<not> ascii_letter c) s"
proof -
  from assms have no: "104 \<notin> set s" "119 \<notin> set s" "64 \<notin> set s" "35 \<notin> set s"
    by (auto simp: list_all_iff arabic_block_def)
  from assms have "list_all (\<lambda>c. \<not> ascii_letter c) s"
    by (auto simp: list_all_iff arabic_block_def ascii_letter_def)
  moreover have "\<not> re_search [u ''http'', u ''www.''] cls s"
    by (rule re_search_needs_first) (simp add: u_def no)
  moreover have "\<not> re_search [u ''@''] cls s"
    by (rule re_search_needs_first) (simp add: u_def no)
  moreover have "\<not> re_search [u ''#''] cls s"
    by (rule re_search_needs_first) (simp add: u_def no)
  ultimately show ?thesis by simp
qed

subsection \<open>Alerts\<close>

text \<open>
  Claim C1. For a message that passes the filter of \<^verbatim>\<open>mood_analyzer\<close> and is stored
  (the database is reachable and the new id is not in the table), the handler raises
  nothing and sends an alert to the admin group if and only if the sentiment is
  \<^verbatim>\<open>NEGATIVE\<close> and the score is strictly greater than 0.6. The alert carries the
  score as a percentage, the normalized text, the chat title and the two buttons. The
  witness runs the handler at the scores 0.6 (no alert) and 0.92 (alert).
\<close>

theorem alert_iff_negative_above_threshold:
  assumes "is_group event" and "raw_text event \<noteq> []"
      and "db_available E" and "uuid4 E \<notin> set (map row_id (sentiment_data st))"
      and "analyze_sentiment X (preprocess_text X (raw_text event)) = (sentiment, score)"
  shows "fst (mood_analyzer X C E event st) = None \<and>
         outbox (snd (mood_analyzer X C E event st)) =
           (if sentiment = ''NEGATIVE'' \<and> score > 6 / 10
            then outbox st @
                   [Alert (admin_group_id C) (score * 100) (preprocess_text X (raw_text event))
                      (case chat_title event of None \<Rightarrow> u ''Unknown'' | Some t \<Rightarrow> t)
                      [(''Negative'', u ''label_negative:'' @ uuid4 E),
                       (''Not Negative'', u ''label_not_negative:'' @ uuid4 E)]]
            else outbox st) \<and>
         ((\<exists>a. outbox (snd (mood_analyzer X C E event st)) = outbox st @ [a])
            \<longleftrightarrow> sentiment = ''NEGATIVE'' \<and> score > 6 / 10)"
  using assms by (simp add: mood_analyzer_def save_message_data_def Let_def)

theorem alert_iff_negative_above_threshold_witness:
  "fst (mood_analyzer (sample_extern (Result [(''SAD'', 6 / 10)])) sample_config (sample_env True)
          \<lparr>is_group = True, raw_text = [1587, 1604, 1575, 1605], chat_id = 1002, chat_title = None\<rparr>
          empty_state) = None \<and>
   outbox (snd (mood_analyzer (sample_extern (Result [(''SAD'', 6 / 10)])) sample_config
          (sample_env True)
          \<lparr>is_group = True, raw_text = [1587, 1604, 1575, 1605], chat_id = 1002, chat_title = None\<rparr>
          empty_state)) = [] \<and>
   outbox (snd (mood_analyzer (sample_extern (Result [(''SAD'', 92 / 100)])) sample_config
          (sample_env True)
          \<lparr>is_group = True, raw_text = [1587, 1604, 1575, 1605], chat_id = 1002, chat_title = None\<rparr>
          empty_state)) =
     [Alert 1001 92 [1587, 1604, 1575, 1605] (u ''Unknown'')
        [(''Negative'', u ''label_negative:1b4e28ba-2fa1-41d2-883f-0016d3cca427''),
         (''Not Negative'', u ''label_not_negative:1b4e28ba-2fa1-41d2-883f-0016d3cca427'')]]"
proof -
  let ?ev = "\<lparr>is_group = True, raw_text = [1587, 1604, 1575, 1605], chat_id = 1002,
               chat_title = None\<rparr>"
  have a: "analyze_sentiment (sample_extern (Result [(''SAD'', 6 / 10)]))
             (preprocess_text (sample_extern (Result [(''SAD'', 6 / 10)])) (raw_text ?ev))
           = (''NEGATIVE'', 6 / 10)"
    by (simp add: analyze_sentiment_def sample_extern_def)
  have b: "analyze_sentiment (sample_extern (Result [(''SAD'', 92 / 100)]))
             (preprocess_text (sample_extern (Result [(''SAD'', 92 / 100)])) (raw_text ?ev))
           = (''NEGATIVE'', 92 / 100)"
    by (simp add: analyze_sentiment_def sample_extern_def)
  have g: "is_group ?ev" "raw_text ?ev \<noteq> []" by simp_all
  have d: "db_available (sample_env True)"
    "uuid4 (sample_env True) \<notin> set (map row_id (sentiment_data empty_state))"
    by (simp_all add: sample_env_def empty_state_def)
  from alert_iff_negative_above_threshold [OF g d a, of sample_config]
       alert_iff_negative_above_threshold [OF g d b, of sample_config]
  show ?thesis
    by (simp add: sample_preprocess_salam sample_config_def sample_env_def empty_state_def u_def)
qed

subsection \<open>The counts of the daily summary\<close>

text \<open>
  Claim C2. When no list in \<^verbatim>\<open>messages_data\<close> is empty (lists are only ever created
  by an append) and yesterday has a list of length \<open>n\<close>, \<^verbatim>\<open>daily_mood_summary\<close>
  sends the summary with the number of \<^verbatim>\<open>POSITIVE\<close> entries, the number of
  \<^verbatim>\<open>NEGATIVE\<close> entries and, as the neutral count, \<open>n\<close> minus these two. The three
  counts add up to \<open>n\<close>; the neutral count is the number of entries that are neither
  \<^verbatim>\<open>POSITIVE\<close> nor \<^verbatim>\<open>NEGATIVE\<close>, so every \<^verbatim>\<open>ERROR\<close> entry is part of it. The
  witness is the list POSITIVE, POSITIVE, NEGATIVE, ERROR with the counts 2, 1 and 1.
\<close>

theorem daily_mood_summary_counts:
  assumes "[] \<notin> set (map snd (messages_data st))"
      and "map_of (messages_data st) (yesterday E) = Some bucket"
  shows "\<exists>pos neu neg chart.
           daily_mood_summary C E st =
             (None, st\<lparr>outbox := outbox st @
                      [Summary (admin_group_id C) (yesterday E) pos neu neg chart]\<rparr>) \<and>
           pos = int (length (filter (\<lambda>s. s = ''POSITIVE'') bucket)) \<and>
           neg = int (length (filter (\<lambda>s. s = ''NEGATIVE'') bucket)) \<and>
           neu = int (length bucket) - pos - neg \<and>
           pos + neu + neg = int (length bucket) \<and>
           neu = int (length (filter (\<lambda>s. s \<noteq> ''POSITIVE'' \<and> s \<noteq> ''NEGATIVE'') bucket)) \<and>
           int (length (filter (\<lambda>s. s = ''ERROR'') bucket)) \<le> neu"
proof -
  from assms(2) have "(yesterday E, bucket) \<in> set (messages_data st)" by (rule map_of_SomeD)
  with assms(1) have ne: "bucket \<noteq> []" by force
  from generate_mood_chart_total [OF assms(1)]
  obtain chart where ch: "generate_mood_chart (messages_data st) = Inr chart" by blast
  have run: "daily_mood_summary C E st =
      (None, st\<lparr>outbox := outbox st @
         [Summary (admin_group_id C) (yesterday E) (count_sum ''POSITIVE'' bucket)
            (int (length bucket) - count_sum ''POSITIVE'' bucket - count_sum ''NEGATIVE'' bucket)
            (count_sum ''NEGATIVE'' bucket) chart]\<rparr>)"
    using assms(2) ne ch by (simp add: daily_mood_summary_def Let_def)
  show ?thesis
  proof (intro exI conjI)
    show "daily_mood_summary C E st =
      (None, st\<lparr>outbox := outbox st @
         [Summary (admin_group_id C) (yesterday E) (count_sum ''POSITIVE'' bucket)
            (int (length bucket) - count_sum ''POSITIVE'' bucket - count_sum ''NEGATIVE'' bucket)
            (count_sum ''NEGATIVE'' bucket) chart]\<rparr>)"
      by (rule run)
  qed (use residual_count [of bucket] error_in_residual [of bucket]
       in \<open>simp_all add: count_sum_length\<close>)
qed

theorem daily_mood_summary_counts_witness:
  "[] \<notin> set (map snd [(''2024-03-01'', [''POSITIVE'', ''POSITIVE'', ''NEGATIVE'', ''ERROR''])]) \<and>
   map_of [(''2024-03-01'', [''POSITIVE'', ''POSITIVE'', ''NEGATIVE'', ''ERROR''])] ''2024-03-01''
     = Some [''POSITIVE'', ''POSITIVE'', ''NEGATIVE'', ''ERROR''] \<and>
   daily_mood_summary sample_config (sample_env True)
     \<lparr>sentiment_data = [],
      messages_data = [(''2024-03-01'', [''POSITIVE'', ''POSITIVE'', ''NEGATIVE'', ''ERROR''])],
      outbox = []\<rparr>
   = (None,
      \<lparr>sentiment_data = [],
       messages_data = [(''2024-03-01'', [''POSITIVE'', ''POSITIVE'', ''NEGATIVE'', ''ERROR''])],
       outbox = [Summary 1001 ''2024-03-01'' 2 1 1 ([''2024-03-01''], [50], [25], [25])]\<rparr>)"
proof -
  let ?st = "\<lparr>sentiment_data = [],
              messages_data =
                [(''2024-03-01'', [''POSITIVE'', ''POSITIVE'', ''NEGATIVE'', ''ERROR''])],
              outbox = []\<rparr>"
  have inv: "[] \<notin> set (map snd (messages_data ?st))" by simp
  have y: "map_of (messages_data ?st) (yesterday (sample_env True))
             = Some [''POSITIVE'', ''POSITIVE'', ''NEGATIVE'', ''ERROR'']"
    by (simp add: sample_env_def)
  have ch: "generate_mood_chart (messages_data ?st) = Inr ([''2024-03-01''], [50], [25], [25])"
    by (simp add: generate_mood_chart_def count_sum_def Let_def)
  have run: "daily_mood_summary sample_config (sample_env True) ?st =
      (None, ?st\<lparr>outbox := [Summary 1001 ''2024-03-01'' 2 1 1
                                  ([''2024-03-01''], [50], [25], [25])]\<rparr>)"
    using ch by (simp add: daily_mood_summary_def sample_env_def sample_config_def count_sum_def)
  from daily_mood_summary_counts [OF inv y, of sample_config] run
  show ?thesis by simp
qed

subsection \<open>A failing classifier\<close>

text \<open>
  Claim C3. Whenever the pipeline raises, \<^verbatim>\<open>analyze_sentiment\<close> returns
  \<^verbatim>\<open>("ERROR", 0.0)\<close> and raises nothing. A message whose classification failed this
  way, once past the filter and with the database reachable, is inserted into the table
  with sentiment \<^verbatim>\<open>ERROR\<close> and score 0, and \<^verbatim>\<open>ERROR\<close> is appended to the list
  of the current day.
\<close>

theorem classifier_error_is_absorbed:
  assumes "sentiment_pipeline X (preprocess_text X (raw_text event)) = Raises"
      and "is_group event" and "raw_text event \<noteq> []"
      and "db_available E" and "uuid4 E \<notin> set (map row_id (sentiment_data st))"
  shows "(\<forall>t. sentiment_pipeline X t = Raises \<longrightarrow> analyze_sentiment X t = (''ERROR'', 0)) \<and>
         fst (mood_analyzer X C E event st) = None \<and>
         sentiment_data (snd (mood_analyzer X C E event st)) =
           sentiment_data st @
             [\<lparr>row_id = uuid4 E, row_text = preprocess_text X (raw_text event),
               row_sentiment = ''ERROR'', row_score = 0, row_label = None,
               row_timestamp = now E\<rparr>] \<and>
         map_of (messages_data (snd (mood_analyzer X C E event st))) (today E) =
           Some ((case map_of (messages_data st) (today E) of None \<Rightarrow> [] | Some v \<Rightarrow> v)
                 @ [''ERROR''])"
  using assms
  by (simp add: mood_analyzer_def analyze_sentiment_def save_message_data_def Let_def
      map_of_update_same)

theorem classifier_error_is_absorbed_witness:
  "sentiment_pipeline (sample_extern Raises)
     (preprocess_text (sample_extern Raises) [1587, 1604, 1575, 1605]) = Raises \<and>
   analyze_sentiment (sample_extern Raises) [1587, 1604, 1575, 1605] = (''ERROR'', 0) \<and>
   mood_analyzer (sample_extern Raises) sample_config (sample_env True)
     \<lparr>is_group = True, raw_text = [1587, 1604, 1575, 1605], chat_id = 1002, chat_title = None\<rparr>
     empty_state =
   (None, \<lparr>sentiment_data =
             [\<lparr>row_id = u ''1b4e28ba-2fa1-41d2-883f-0016d3cca427'',
               row_text = [1587, 1604, 1575, 1605], row_sentiment = ''ERROR'', row_score = 0,
               row_label = None, row_timestamp = 0\<rparr>],
           messages_data = [(''2024-03-02'', [''ERROR''])], outbox = []\<rparr>)"
proof -
  let ?ev = "\<lparr>is_group = True, raw_text = [1587, 1604, 1575, 1605], chat_id = 1002,
               chat_title = None\<rparr>"
  have r: "sentiment_pipeline (sample_extern Raises)
             (preprocess_text (sample_extern Raises) (raw_text ?ev)) = Raises"
    by (simp add: sample_extern_def)
  have g: "is_group ?ev" "raw_text ?ev \<noteq> []" by simp_all
  have d: "db_available (sample_env True)"
    "uuid4 (sample_env True) \<notin> set (map row_id (sentiment_data empty_state))"
    by (simp_all add: sample_env_def empty_state_def)
  have run: "mood_analyzer (sample_extern Raises) sample_config (sample_env True) ?ev empty_state =
   (None, \<lparr>sentiment_data =
             [\<lparr>row_id = u ''1b4e28ba-2fa1-41d2-883f-0016d3cca427'',
               row_text = [1587, 1604, 1575, 1605], row_sentiment = ''ERROR'', row_score = 0,
               row_label = None, row_timestamp = 0\<rparr>],
           messages_data = [(''2024-03-02'', [''ERROR''])], outbox = []\<rparr>)"
    by (simp add: mood_analyzer_def sample_preprocess_salam analyze_sentiment_def
        save_message_data_def sample_env_def empty_state_def Let_def)
       (simp add: sample_extern_def)
  from classifier_error_is_absorbed [OF r g d, of sample_config] r run
  show ?thesis by simp
qed

subsection \<open>Which chats are analyzed\<close>

text \<open>
  Claim C4. \<^verbatim>\<open>group_id\<close> is defined as the group where the bot is active, but
  \<^verbatim>\<open>mood_analyzer\<close> never reads it: its filter is \<^verbatim>\<open>event.is_group\<close> and a non-empty
  text. A message from a group other than the monitored one (here chat 999, the
  monitored group being 1002) runs through the whole pipeline: it is normalized,
  classified, inserted, counted and alerted.
\<close>

theorem message_of_other_group_is_processed:
  "chat_id \<lparr>is_group = True, raw_text = [1587, 1604, 1575, 1605], chat_id = 999,
            chat_title = None\<rparr> \<noteq> group_id sample_config \<and>
   mood_analyzer (sample_extern (Result [(''SAD'', 92 / 100)])) sample_config (sample_env True)
     \<lparr>is_group = True, raw_text = [1587, 1604, 1575, 1605], chat_id = 999, chat_title = None\<rparr>
     empty_state =
   (None,
    \<lparr>sentiment_data =
       [\<lparr>row_id = u ''1b4e28ba-2fa1-41d2-883f-0016d3cca427'',
         row_text = [1587, 1604, 1575, 1605], row_sentiment = ''NEGATIVE'',
         row_score = 92 / 100, row_label = None, row_timestamp = 0\<rparr>],
     messages_data = [(''2024-03-02'', [''NEGATIVE''])],
     outbox =
       [Alert 1001 92 [1587, 1604, 1575, 1605] (u ''Unknown'')
          [(''Negative'', u ''label_negative:'' @ u ''1b4e28ba-2fa1-41d2-883f-0016d3cca427''),
           (''Not Negative'',
            u ''label_not_negative:'' @ u ''1b4e28ba-2fa1-41d2-883f-0016d3cca427'')]]\<rparr>)"
  by (simp add: mood_analyzer_def sample_preprocess_salam analyze_sentiment_def
        save_message_data_def sample_env_def sample_config_def empty_state_def Let_def)
     (simp add: sample_extern_def)

subsection \<open>A failing insert\<close>

text \<open>
  Claim C5. If \<^verbatim>\<open>save_message_data\<close> raises, for whatever sentiment and score the
  message has, \<^verbatim>\<open>mood_analyzer\<close> ends with that exception and leaves the state as it
  was: no alert is sent and nothing is appended to the list of the day. The witness is a
  message classified \<^verbatim>\<open>NEGATIVE\<close> with score 0.92 while the database cannot be reached.
\<close>

theorem failed_insert_sends_no_alert:
  assumes "is_group event" and "raw_text event \<noteq> []"
      and "analyze_sentiment X (preprocess_text X (raw_text event)) = (sentiment, score)"
      and "save_message_data E (sentiment_data st) (preprocess_text X (raw_text event))
             sentiment score None = Inl e"
  shows "mood_analyzer X C E event st = (Some e, st) \<and>
         outbox (snd (mood_analyzer X C E event st)) = outbox st"
  using assms by (simp add: mood_analyzer_def)

theorem failed_insert_sends_no_alert_witness:
  "analyze_sentiment (sample_extern (Result [(''SAD'', 92 / 100)]))
     (preprocess_text (sample_extern (Result [(''SAD'', 92 / 100)])) [1587, 1604, 1575, 1605])
     = (''NEGATIVE'', 92 / 100) \<and>
   save_message_data (sample_env False) [] [1587, 1604, 1575, 1605] ''NEGATIVE'' (92 / 100) None
     = Inl OperationalError \<and>
   mood_analyzer (sample_extern (Result [(''SAD'', 92 / 100)])) sample_config (sample_env False)
     \<lparr>is_group = True, raw_text = [1587, 1604, 1575, 1605], chat_id = 1002, chat_title = None\<rparr>
     empty_state = (Some OperationalError, empty_state)"
proof -
  let ?X = "sample_extern (Result [(''SAD'', 92 / 100)])"
  let ?ev = "\<lparr>is_group = True, raw_text = [1587, 1604, 1575, 1605], chat_id = 1002,
               chat_title = None\<rparr>"
  have g: "is_group ?ev" "raw_text ?ev \<noteq> []" by simp_all
  have a: "analyze_sentiment ?X (preprocess_text ?X (raw_text ?ev)) = (''NEGATIVE'', 92 / 100)"
    by (simp add: analyze_sentiment_def sample_extern_def)
  have s: "save_message_data (sample_env False) (sentiment_data empty_state)
             (preprocess_text ?X (raw_text ?ev)) ''NEGATIVE'' (92 / 100) None
           = Inl OperationalError"
    by (simp add: save_message_data_def sample_env_def)
  from failed_insert_sends_no_alert [OF g a s, of sample_config] a s
  show ?thesis by (simp add: sample_preprocess_salam empty_state_def)
qed

subsection \<open>Feedback for an unknown id\<close>

text \<open>
  The update of an id that no row has ends normally: \<^verbatim>\<open>update_feedback_in_dataset\<close>
  returns without an exception, here on a table whose only row has another id.
\<close>

theorem update_of_unknown_id_returns_normally:
  "update_feedback_in_dataset (sample_env True)
     [\<lparr>row_id = u ''a'', row_text = [1587], row_sentiment = ''NEGATIVE'', row_score = 92 / 100,
       row_label = None, row_timestamp = 0\<rparr>]
     (u ''b'') ''negative''
   = Inr [\<lparr>row_id = u ''a'', row_text = [1587], row_sentiment = ''NEGATIVE'',
            row_score = 92 / 100, row_label = None, row_timestamp = 0\<rparr>]"
  by (simp add: update_feedback_in_dataset_def sample_env_def u_def)

text \<open>
  Claim C6, as the code has it. For every id that is not in the table, and with the
  database reachable, \<^verbatim>\<open>update_feedback_in_dataset\<close> returns normally and leaves every
  row as it was. No error tells the caller that the id is unknown.
\<close>

theorem update_of_unknown_id_changes_nothing:
  assumes "unique_id \<notin> set (map row_id tbl)" and "db_available E"
  shows "update_feedback_in_dataset E tbl unique_id label = Inr tbl"
proof -
  have "map (\<lambda>r. if row_id r = unique_id then r\<lparr>row_label := Some label\<rparr> else r) tbl = tbl"
    using assms(1) by (induction tbl) auto
  with assms(2) show ?thesis by (simp add: update_feedback_in_dataset_def)
qed

theorem update_of_unknown_id_changes_nothing_witness:
  "u ''b'' \<notin> set (map row_id
      [\<lparr>row_id = u ''a'', row_text = [1587], row_sentiment = ''NEGATIVE'', row_score = 92 / 100,
        row_label = None, row_timestamp = 0\<rparr>]) \<and>
   db_available (sample_env True) \<and>
   update_feedback_in_dataset (sample_env True)
     [\<lparr>row_id = u ''a'', row_text = [1587], row_sentiment = ''NEGATIVE'', row_score = 92 / 100,
       row_label = None, row_timestamp = 0\<rparr>]
     (u ''b'') ''not_negative''
   = Inr [\<lparr>row_id = u ''a'', row_text = [1587], row_sentiment = ''NEGATIVE'',
            row_score = 92 / 100, row_label = None, row_timestamp = 0\<rparr>]"
proof -
  let ?tbl = "[\<lparr>row_id = u ''a'', row_text = [1587], row_sentiment = ''NEGATIVE'',
                 row_score = 92 / 100, row_label = None, row_timestamp = 0\<rparr>]"
  have a: "u ''b'' \<notin> set (map row_id ?tbl)" by (simp add: u_def)
  have b: "db_available (sample_env True)" by (simp add: sample_env_def)
  from update_of_unknown_id_changes_nothing [OF a b] a b show ?thesis by simp
qed

subsection \<open>Payloads of the feedback handler\<close>

text \<open>
  A payload without a colon: \<^verbatim>\<open>data.split(":", 1)\<close> has one element, the read of
  element 1 raises \<^verbatim>\<open>IndexError\<close>, and the handler ends before \<^verbatim>\<open>event.answer\<close>.
\<close>

theorem payload_without_colon_is_not_acknowledged:
  "handle_feedback (sample_env True) \<lparr>data = ''label_negative''\<rparr> empty_state
     = (Some IndexError, empty_state) \<and>
   outbox (snd (handle_feedback (sample_env True) \<lparr>data = ''label_negative''\<rparr> empty_state)) = []"
  by (simp add: handle_feedback_def cons_cp_def split1_def getitem_def u_def empty_state_def)

text \<open>
  Claim C7, as the code has it. For every callback whose payload is UTF-8 and contains a
  colon, and with the database reachable, \<^verbatim>\<open>handle_feedback\<close> raises nothing and
  answers the callback, whether or not a row has the id of the payload.
\<close>

theorem feedback_with_colon_is_acknowledged:
  assumes "decode_utf8 (data event) = Inr d" and "58 \<in> set d" and "db_available E"
  shows "fst (handle_feedback E event st) = None \<and>
         outbox (snd (handle_feedback E event st)) =
           outbox st @ [Answer ''Feedback recorded! Thank you.'', DeleteMessage]"
  using assms
  by (simp add: handle_feedback_def split1_colon update_feedback_in_dataset_def Let_def)

theorem feedback_with_colon_is_acknowledged_witness:
  "decode_utf8 (data \<lparr>data = ''label_negative:zz''\<rparr>) = Inr (u ''label_negative:zz'') \<and>
   58 \<in> set (u ''label_negative:zz'') \<and> db_available (sample_env True) \<and>
   fst (handle_feedback (sample_env True) \<lparr>data = ''label_negative:zz''\<rparr> empty_state) = None \<and>
   outbox (snd (handle_feedback (sample_env True) \<lparr>data = ''label_negative:zz''\<rparr> empty_state)) =
     [Answer ''Feedback recorded! Thank you.'', DeleteMessage]"
proof -
  have a: "decode_utf8 (data \<lparr>data = ''label_negative:zz''\<rparr>) = Inr (u ''label_negative:zz'')"
    by (simp add: cons_cp_def u_def)
  have b: "58 \<in> set (u ''label_negative:zz'')" by (simp add: u_def)
  have c: "db_available (sample_env True)" by (simp add: sample_env_def)
  from feedback_with_colon_is_acknowledged [OF a b c, of empty_state] a b c
  show ?thesis by (simp add: empty_state_def)
qed

subsection \<open>Normalization\<close>

text \<open>
  Claim C8. \<^verbatim>\<open>preprocess_text\<close> removes the digits after it has collapsed and stripped
  the whitespace, so the spaces around a removed number stay. On the text of the two
  Persian digits U+06F1 and U+06F2 with a space between them, which the emoji library
  and the normalizer leave alone, the result is a single space, and a second application
  turns it into the empty string: the function is not idempotent.
\<close>

theorem normalization_not_idempotent:
  assumes "uni_decimal X 1777" and "uni_decimal X 1778" and "\<not> uni_decimal X 32"
      and "replace_emoji X [1777, 32, 1778] = [1777, 32, 1778]"
      and "replace_emoji X [32] = [32]"
      and "normalize X [1777, 32, 1778] = [1777, 32, 1778]"
      and "normalize X [] = []"
  shows "preprocess_text X [1777, 32, 1778] = [32] \<and>
         preprocess_text X (preprocess_text X [1777, 32, 1778]) = [] \<and>
         preprocess_text X (preprocess_text X [1777, 32, 1778])
           \<noteq> preprocess_text X [1777, 32, 1778]"
proof -
  have first: "preprocess_text X [1777, 32, 1778] = [32]"
    using assms by (simp add: text_defs)
  have second: "preprocess_text X [32] = []"
    using assms by (simp add: text_defs)
  from first second show ?thesis by simp
qed

theorem normalization_not_idempotent_witness:
  "uni_decimal (sample_extern Raises) 1777 \<and> uni_decimal (sample_extern Raises) 1778 \<and>
   \<not> uni_decimal (sample_extern Raises) 32 \<and>
   replace_emoji (sample_extern Raises) [1777, 32, 1778] = [1777, 32, 1778] \<and>
   replace_emoji (sample_extern Raises) [32] = [32] \<and>
   normalize (sample_extern Raises) [1777, 32, 1778] = [1777, 32, 1778] \<and>
   normalize (sample_extern Raises) [] = [] \<and>
   preprocess_text (sample_extern Raises) [1777, 32, 1778] = [32] \<and>
   preprocess_text (sample_extern Raises) (preprocess_text (sample_extern Raises) [1777, 32, 1778])
     = []"
proof -
  let ?X = "sample_extern Raises"
  have h: "uni_decimal ?X 1777" "uni_decimal ?X 1778" "\<not> uni_decimal ?X 32"
    "replace_emoji ?X [1777, 32, 1778] = [1777, 32, 1778]" "replace_emoji ?X [32] = [32]"
    "normalize ?X [1777, 32, 1778] = [1777, 32, 1778]" "normalize ?X [] = []"
    by (simp_all add: sample_extern_def)
  from normalization_not_idempotent [OF h]
  have r: "preprocess_text ?X [1777, 32, 1778] = [32]"
    "preprocess_text ?X (preprocess_text ?X [1777, 32, 1778]) = []"
    by blast+
  show ?thesis by (intro conjI) (rule h r)+
qed

text \<open>
  Claim C9. For every text, \<^verbatim>\<open>preprocess_text\<close> is the chain of its steps in this
  order: URLs, mentions, hashtags, emoji, Latin letters, characters that are neither in
  U+0600..U+06FF nor whitespace, whitespace collapsing, the normalizer, digits. Each
  step strips what it is there for: after the first substitution the URL pattern
  matches nowhere, after the second the mention pattern, after the third the hashtag
  pattern; after the fifth step no Latin letter is left, and after the sixth only
  characters of the block and whitespace, hence no emoji either, whatever the emoji
  library returned. The text handed to the normalizer consists of characters of the
  block and spaces, and no URL, mention, hashtag or Latin letter is in it. The result
  holds no digit, and whatever is true of every character that the normalizer returns
  on texts of that kind is true of every character of the result. On the text of the
  scenario (the word U+0633 U+0644 U+0627 U+0645, a URL, a mention, a hashtag, the emoji
  U+1F60A and the digits 123), given that the emoji library removes the emoji and the
  normalizer keeps the word, the result is the word alone, all of whose characters are
  non-digits of the block. The witness adds a second text, a mention, the word followed
  by two Persian digits, and a URL, run with a normalizer that returns its input.
\<close>

theorem normalization_strips_in_order:
  assumes "list_all (uni_alnum X) (u ''joetag'')" and "\<not> uni_alnum X 32"
      and "list_all (\<lambda>c. \<not> uni_decimal X c) [1587, 1604, 1575, 1605]"
      and "replace_emoji X ([1587, 1604, 1575, 1605] @ u ''    '' @ [128522] @ u ''123'')
             = [1587, 1604, 1575, 1605] @ u ''    123''"
      and "normalize X [1587, 1604, 1575, 1605] = [1587, 1604, 1575, 1605]"
  shows "(let s1 = re_sub_del [u ''http'', u ''www.''] re_S 0 t;
              s2 = re_sub_del [u ''@''] (re_w X) 0 s1;
              s3 = re_sub_del [u ''#''] (re_w X) 0 s2;
              s4 = replace_emoji X s3;
              s5 = filter (\<lambda>c. \<not> ascii_letter c) s4;
              s6 = filter (\<lambda>c. arabic_block c \<or> is_space c) s5;
              s7 = strip (collapse_ws False s6)
          in preprocess_text X t = filter (\<lambda>c. \<not> uni_decimal X c) (normalize X s7) \<and>
             \<not> re_search [u ''http'', u ''www.''] re_S s1 \<and>
             \<not> re_search [u ''@''] (re_w X) s2 \<and>
             \<not> re_search [u ''#''] (re_w X) s3 \<and>
             list_all (\<lambda>c. \<not> ascii_letter c) s5 \<and>
             list_all (\<lambda>c. arabic_block c \<or> is_space c) s6 \<and>
             list_all (\<lambda>c. arabic_block c \<or> c = 32) s7 \<and>
             \<not> re_search [u ''http'', u ''www.''] re_S s7 \<and>
             \<not> re_search [u ''@''] (re_w X) s7 \<and>
             \<not> re_search [u ''#''] (re_w X) s7 \<and>
             list_all (\<lambda>c. \<not> ascii_letter c) s7) \<and>
         list_all (\<lambda>c. \<not> uni_decimal X c) (preprocess_text X t) \<and>
         ((\<forall>s. list_all (\<lambda>c. arabic_block c \<or> c = 32) s \<longrightarrow> list_all P (normalize X s))
            \<longrightarrow> list_all (\<lambda>c. P c \<and> \<not> uni_decimal X c) (preprocess_text X t)) \<and>
         preprocess_text X
           ([1587, 1604, 1575, 1605] @ u '' http://x.com @joe #tag '' @ [128522] @ u ''123'')
           = [1587, 1604, 1575, 1605] \<and>
         list_all (\<lambda>c. arabic_block c \<and> \<not> uni_decimal X c)
           (preprocess_text X
             ([1587, 1604, 1575, 1605] @ u '' http://x.com @joe #tag '' @ [128522] @ u ''123''))"
proof -
  define s1 where "s1 = re_sub_del [u ''http'', u ''www.''] re_S 0 t"
  define s2 where "s2 = re_sub_del [u ''@''] (re_w X) 0 s1"
  define s3 where "s3 = re_sub_del [u ''#''] (re_w X) 0 s2"
  define s5 where "s5 = filter (\<lambda>c. \<not> ascii_letter c) (replace_emoji X s3)"
  define s6 where "s6 = filter (\<lambda>c. arabic_block c \<or> is_space c) s5"
  define s7 where "s7 = strip (collapse_ws False s6)"
  have order: "preprocess_text X t = filter (\<lambda>c. \<not> uni_decimal X c) (normalize X s7)"
    unfolding s7_def s6_def s5_def s3_def s2_def s1_def
    by (simp only: preprocess_text_def Let_def)
  have url: "\<not> re_search [u ''http'', u ''www.''] re_S s1"
    unfolding s1_def
    by (rule re_sub_del_no_match) (simp add: u_def re_S_def is_space_def)
  have mention: "\<not> re_search [u ''@''] (re_w X) s2"
    unfolding s2_def by (rule re_sub_del_no_match) (simp add: u_def)
  have hashtag: "\<not> re_search [u ''#''] (re_w X) s3"
    unfolding s3_def by (rule re_sub_del_no_match) (simp add: u_def)
  have latin: "list_all (\<lambda>c. \<not> ascii_letter c) s5"
    by (simp add: s5_def list_all_iff)
  have script: "list_all (\<lambda>c. arabic_block c \<or> is_space c) s6"
    by (simp add: s6_def list_all_iff)
  have clean: "list_all (\<lambda>c. arabic_block c \<or> c = 32) s7"
    unfolding s7_def by (intro strip_chars collapse_ws_chars script)
  note rest = script_text_has_no_pattern [OF clean]
  have digits: "list_all (\<lambda>c. \<not> uni_decimal X c) (preprocess_text X t)"
    by (simp add: order list_all_iff)
  have generic: "(\<forall>s. list_all (\<lambda>c. arabic_block c \<or> c = 32) s \<longrightarrow> list_all P (normalize X s))
            \<longrightarrow> list_all (\<lambda>c. P c \<and> \<not> uni_decimal X c) (preprocess_text X t)"
    using clean by (auto simp: order list_all_iff)
  have example: "preprocess_text X
           ([1587, 1604, 1575, 1605] @ u '' http://x.com @joe #tag '' @ [128522] @ u ''123'')
           = [1587, 1604, 1575, 1605]"
    using assms by (simp add: text_defs)
  have block: "list_all (\<lambda>c. arabic_block c \<and> \<not> uni_decimal X c) [1587, 1604, 1575, 1605]"
    using assms(3) by (simp add: arabic_block_def)
  have stages: "(let s1 = re_sub_del [u ''http'', u ''www.''] re_S 0 t;
              s2 = re_sub_del [u ''@''] (re_w X) 0 s1;
              s3 = re_sub_del [u ''#''] (re_w X) 0 s2;
              s4 = replace_emoji X s3;
              s5 = filter (\<lambda>c. \<not> ascii_letter c) s4;
              s6 = filter (\<lambda>c. arabic_block c \<or> is_space c) s5;
              s7 = strip (collapse_ws False s6)
          in preprocess_text X t = filter (\<lambda>c. \<not> uni_decimal X c) (normalize X s7) \<and>
             \<not> re_search [u ''http'', u ''www.''] re_S s1 \<and>
             \<not> re_search [u ''@''] (re_w X) s2 \<and>
             \<not> re_search [u ''#''] (re_w X) s3 \<and>
             list_all (\<lambda>c. \<not> ascii_letter c) s5 \<and>
             list_all (\<lambda>c. arabic_block c \<or> is_space c) s6 \<and>
             list_all (\<lambda>c. arabic_block c \<or> c = 32) s7 \<and>
             \<not> re_search [u ''http'', u ''www.''] re_S s7 \<and>
             \<not> re_search [u ''@''] (re_w X) s7 \<and>
             \<not> re_search [u ''#''] (re_w X) s7 \<and>
             list_all (\<lambda>c. \<not> ascii_letter c) s7)"
    unfolding Let_def
    using order url mention hashtag latin script clean rest
    unfolding s7_def s6_def s5_def s3_def s2_def s1_def
    by blast
  from stages digits generic example block show ?thesis
    by (simp only: simp_thms)
qed

theorem normalization_strips_in_order_witness:
  "list_all (uni_alnum (sample_extern Raises)) (u ''joetag'') \<and>
   \<not> uni_alnum (sample_extern Raises) 32 \<and>
   list_all (\<lambda>c. \<not> uni_decimal (sample_extern Raises) c) [1587, 1604, 1575, 1605] \<and>
   replace_emoji (sample_extern Raises)
       ([1587, 1604, 1575, 1605] @ u ''    '' @ [128522] @ u ''123'')
     = [1587, 1604, 1575, 1605] @ u ''    123'' \<and>
   normalize (sample_extern Raises) [1587, 1604, 1575, 1605] = [1587, 1604, 1575, 1605] \<and>
   preprocess_text (sample_extern Raises)
       ([1587, 1604, 1575, 1605] @ u '' http://x.com @joe #tag '' @ [128522] @ u ''123'')
     = [1587, 1604, 1575, 1605] \<and>
   list_all (\<lambda>c. (arabic_block c \<or> c = 32) \<and> \<not> uni_decimal (sample_extern Raises) c)
     (preprocess_text (sample_extern Raises)
        (u ''@joe '' @ [1587, 1604, 1575, 1605, 1777, 1778] @ u '' www.x.ir''))"
proof -
  let ?X = "sample_extern Raises"
  have h: "list_all (uni_alnum ?X) (u ''joetag'')" "\<not> uni_alnum ?X 32"
    "list_all (\<lambda>c. \<not> uni_decimal ?X c) [1587, 1604, 1575, 1605]"
    "replace_emoji ?X ([1587, 1604, 1575, 1605] @ u ''    '' @ [128522] @ u ''123'')
       = [1587, 1604, 1575, 1605] @ u ''    123''"
    "normalize ?X [1587, 1604, 1575, 1605] = [1587, 1604, 1575, 1605]"
    by (simp_all add: sample_extern_def u_def ascii_letter_def)
  have n: "\<forall>s. list_all (\<lambda>c. arabic_block c \<or> c = 32) s \<longrightarrow>
             list_all (\<lambda>c. arabic_block c \<or> c = 32) (normalize ?X s)"
    by (simp add: sample_extern_def)
  note r = normalization_strips_in_order [OF h,
      of "u ''@joe '' @ [1587, 1604, 1575, 1605, 1777, 1778] @ u '' www.x.ir''"
         "\<lambda>c. arabic_block c \<or> c = 32"]
  note e = r [THEN conjunct2, THEN conjunct2, THEN conjunct2, THEN conjunct1]
  note g = r [THEN conjunct2, THEN conjunct2, THEN conjunct1, THEN mp, OF n]
  show ?thesis by (intro conjI) (rule h e g)+
qed

subsection \<open>The two buttons\<close>

text \<open>
  Claim C10. For every record id \<open>uid\<close> (a UUID string), the payload
  \<^verbatim>\<open>label_negative:uid\<close> makes \<^verbatim>\<open>handle_feedback\<close> store the label \<^verbatim>\<open>negative\<close> on
  the row with that id, and the payload \<^verbatim>\<open>label_not_negative:uid\<close> makes it store
  \<^verbatim>\<open>not_negative\<close>: the test for the substring \<^verbatim>\<open>label_negative\<close> succeeds on the
  first payload and fails on the second.
\<close>

theorem payloads_select_their_label:
  assumes "list_all uuid_char uid" and "db_available E"
  shows "handle_feedback E \<lparr>data = ''label_negative:'' @ uid\<rparr> st =
           (None, st\<lparr>sentiment_data :=
                        map (\<lambda>r. if row_id r = u uid then r\<lparr>row_label := Some ''negative''\<rparr>
                                  else r) (sentiment_data st),
                      outbox := outbox st @
                        [Answer ''Feedback recorded! Thank you.'', DeleteMessage]\<rparr>) \<and>
         handle_feedback E \<lparr>data = ''label_not_negative:'' @ uid\<rparr> st =
           (None, st\<lparr>sentiment_data :=
                        map (\<lambda>r. if row_id r = u uid
                                  then r\<lparr>row_label := Some ''not_negative''\<rparr>
                                  else r) (sentiment_data st),
                      outbox := outbox st @
                        [Answer ''Feedback recorded! Thank you.'', DeleteMessage]\<rparr>) \<and>
         contains (u ''label_negative'') (u ''label_negative:'' @ u uid) \<and>
         \<not> contains (u ''label_negative'') (u ''label_not_negative:'' @ u uid)"
proof -
  have asc: "list_all (\<lambda>c. (of_char c :: nat) < 128) uid"
    using assms(1) by (rule payload_ascii)
  have d1: "decode_utf8 (''label_negative:'' @ uid) = Inr (u ''label_negative:'' @ u uid)"
    using decode_utf8_ascii [of "''label_negative:'' @ uid"] asc by (simp add: u_def)
  have d2: "decode_utf8 (''label_not_negative:'' @ uid) = Inr (u ''label_not_negative:'' @ u uid)"
    using decode_utf8_ascii [of "''label_not_negative:'' @ uid"] asc by (simp add: u_def)
  have c1: "contains (u ''label_negative'') (u ''label_negative:'' @ u uid)"
    by (rule negative_payload_has_label_negative)
  have c2: "\<not> contains (u ''label_negative'') (u ''label_not_negative:'' @ u uid)"
    using assms(1) by (intro not_negative_payload_has_no_label_negative uuid_no_label_negative)
  have s1: "getitem (split1 58 (u ''label_negative:'' @ u uid)) 1 = Inr (u uid)"
    by (simp add: split1_def getitem_def u_def)
  have s2: "getitem (split1 58 (u ''label_not_negative:'' @ u uid)) 1 = Inr (u uid)"
    by (simp add: split1_def getitem_def u_def)
  have r1: "handle_feedback E \<lparr>data = ''label_negative:'' @ uid\<rparr> st =
           (None, st\<lparr>sentiment_data :=
                        map (\<lambda>r. if row_id r = u uid then r\<lparr>row_label := Some ''negative''\<rparr>
                                  else r) (sentiment_data st),
                      outbox := outbox st @
                        [Answer ''Feedback recorded! Thank you.'', DeleteMessage]\<rparr>)"
    unfolding handle_feedback_def
    by (simp only: callback_event.select_convs d1 sum.case c1 if_True Let_def s1
          update_feedback_in_dataset_def assms(2) not_True_eq_False if_False)
  have r2: "handle_feedback E \<lparr>data = ''label_not_negative:'' @ uid\<rparr> st =
           (None, st\<lparr>sentiment_data :=
                        map (\<lambda>r. if row_id r = u uid
                                  then r\<lparr>row_label := Some ''not_negative''\<rparr>
                                  else r) (sentiment_data st),
                      outbox := outbox st @
                        [Answer ''Feedback recorded! Thank you.'', DeleteMessage]\<rparr>)"
    unfolding handle_feedback_def
    by (simp only: callback_event.select_convs d2 sum.case c2 if_True Let_def s2
          update_feedback_in_dataset_def assms(2) not_True_eq_False if_False)
  from r1 r2 c1 c2 show ?thesis by (intro conjI)
qed

theorem payloads_select_their_label_witness:
  "list_all uuid_char ''1b4e28ba-2fa1-41d2-883f-0016d3cca427'' \<and>
   db_available (sample_env True) \<and>
   handle_feedback (sample_env True)
     \<lparr>data = ''label_not_negative:1b4e28ba-2fa1-41d2-883f-0016d3cca427''\<rparr>
     \<lparr>sentiment_data =
        [\<lparr>row_id = u ''1b4e28ba-2fa1-41d2-883f-0016d3cca427'', row_text = [1587],
          row_sentiment = ''NEGATIVE'', row_score = 92 / 100, row_label = None,
          row_timestamp = 0\<rparr>],
      messages_data = [], outbox = []\<rparr>
   = (None,
      \<lparr>sentiment_data =
         [\<lparr>row_id = u ''1b4e28ba-2fa1-41d2-883f-0016d3cca427'', row_text = [1587],
           row_sentiment = ''NEGATIVE'', row_score = 92 / 100,
           row_label = Some ''not_negative'', row_timestamp = 0\<rparr>],
       messages_data = [],
       outbox = [Answer ''Feedback recorded! Thank you.'', DeleteMessage]\<rparr>)"
proof -
  have a: "list_all uuid_char ''1b4e28ba-2fa1-41d2-883f-0016d3cca427''"
    by (simp add: uuid_char_def)
  have b: "db_available (sample_env True)" by (simp add: sample_env_def)
  from payloads_select_their_label [OF a b] a b
  show ?thesis by simp
qed

end
